theory Spec2Isabelle
  imports Main "HOL-Library.AList"
begin

section \<open>Python values, classes and instances\<close>

text \<open>
  The values a tag field holds: Python's \<open>None\<close> or a string.
\<close>

datatype pyval = PyNone | PyStr string

text \<open>
  A class object: its \<open>_meta.app_label\<close>, its \<open>_meta.module_name\<close> and its
  \<open>__bases__\<close> tuple, in order. The bases of a class exist before the class does, so the
  hierarchy is a finite tree; \<open>object\<close> has no bases.
\<close>

datatype pyclass = PyClass (meta_app_label: string) (meta_module_name: string) (bases: "pyclass list")

datatype error = AttributeError string | Http404 string | TypeError

text \<open>
  A model instance: its primary key (\<open>None\<close> until it is persisted) and its attribute
  dictionary. Instances are mutable objects, so they live in a heap indexed by reference.
\<close>

record model_instance =
  pk :: "nat option"
  attrs :: "string \<rightharpoonup> pyval"

type_synonym ref = nat
type_synonym heap = "ref \<Rightarrow> model_instance"

text \<open>\<open>getattr(obj, name, None)\<close> and \<open>setattr(obj, name, value)\<close>.\<close>

definition getattr_default :: "heap \<Rightarrow> ref \<Rightarrow> string \<Rightarrow> pyval" where
  "getattr_default h r a = (case attrs (h r) a of None \<Rightarrow> PyNone | Some v \<Rightarrow> v)"

definition setattr :: "heap \<Rightarrow> ref \<Rightarrow> string \<Rightarrow> pyval \<Rightarrow> heap" where
  "setattr h r a v = h(r := (h r)\<lparr>attrs := (attrs (h r))(a \<mapsto> v)\<rparr>)"

section \<open>The persisted tag store\<close>

text \<open>A content type is identified by the application label and the model name.\<close>

type_synonym ctype = "string \<times> string"

record tagged_item =
  ti_tag :: string
  ti_content_type :: ctype
  ti_object_id :: "nat option"

record tag_store =
  tag_names :: "string list"
  items :: "tagged_item list"

text \<open>
  The parts of the tag-storage interface that \<open>fields.py\<close> reads from
  (\<open>Tag.objects.get_for_object\<close>, \<open>Tag.objects.usage_for_model\<close> and
  \<open>edit_string_for_tags\<close>) are imported from modules outside the two source files;
  they are parameters of the model.
\<close>

record tagging_api =
  get_for_object :: "tag_store \<Rightarrow> model_instance \<Rightarrow> string list"
  usage_for_model :: "tag_store \<Rightarrow> pyclass \<Rightarrow> string list"
  edit_string_for_tags :: "string list \<Rightarrow> string"

section \<open>The tag field (fields.py)\<close>

record tagfield =
  max_length :: nat
  blank :: bool
  default :: pyval
  senders :: "pyclass list"
  not_senders :: "pyclass list"
  name :: string
  attname :: string
  cls :: pyclass

text \<open>
  The keyword arguments of \<open>TagField.__init__\<close> that the constructor looks at; an absent
  keyword is \<open>None\<close>.
\<close>

record init_kwargs =
  kw_max_length :: "nat option"
  kw_blank :: "bool option"
  kw_default :: "pyval option"

text \<open>
  \<open>TagField.__init__\<close> followed by \<open>contribute_to_class\<close>, which the model metaclass
  calls when the class that declares the field is created: the three defaults are filled
  in, both caches start empty, and the field records its name and the declaring class.
\<close>

definition TagField_init :: "init_kwargs \<Rightarrow> pyclass \<Rightarrow> string \<Rightarrow> tagfield" where
  "TagField_init kw c n =
     \<lparr>max_length = (case kw_max_length kw of None \<Rightarrow> 255 | Some m \<Rightarrow> m),
      blank = (case kw_blank kw of None \<Rightarrow> True | Some b \<Rightarrow> b),
      default = (case kw_default kw of None \<Rightarrow> PyStr [] | Some d \<Rightarrow> d),
      senders = [],
      not_senders = [],
      name = n,
      attname = n,
      cls = c\<rparr>"

definition cache_attr :: "tagfield \<Rightarrow> string" where
  "cache_attr f = ''_'' @ attname f @ ''_cache''"

definition get_instance_tag_cache :: "tagfield \<Rightarrow> heap \<Rightarrow> ref \<Rightarrow> pyval" where
  "get_instance_tag_cache f h r = getattr_default h r (cache_attr f)"

definition set_instance_tag_cache :: "tagfield \<Rightarrow> heap \<Rightarrow> ref \<Rightarrow> pyval \<Rightarrow> heap" where
  "set_instance_tag_cache f h r tags = setattr h r (cache_attr f) tags"

text \<open>
  \<open>__get__\<close>: the instance argument is \<open>None\<close> for an access on the class.
\<close>

definition TagField_get ::
  "tagfield \<Rightarrow> tagging_api \<Rightarrow> tag_store \<Rightarrow> heap \<Rightarrow> ref option \<Rightarrow> pyclass \<Rightarrow> pyval" where
  "TagField_get f api db h inst owner =
     (case inst of
        None \<Rightarrow> PyStr (edit_string_for_tags api (usage_for_model api db owner))
      | Some r \<Rightarrow> get_instance_tag_cache f h r)"

text \<open>
  \<open>__set__\<close>. The first argument is the language's \<open>lower()\<close> method of strings, which
  is a parameter of the model (on the unicode strings the field receives it is not
  confined to ASCII letters); the second is the setting \<open>FORCE_LOWERCASE_TAGS\<close>. The
  heap is returned in either case, since an exception does not undo earlier writes.
\<close>

definition TagField_set ::
  "(string \<Rightarrow> string) \<Rightarrow> bool \<Rightarrow> tagfield \<Rightarrow> heap \<Rightarrow> ref option \<Rightarrow> pyval
     \<Rightarrow> (error + unit) \<times> heap" where
  "TagField_set str_lower force_lowercase f h inst v =
     (case inst of
        None \<Rightarrow> (Inl (AttributeError (name f @ '' can only be set on instances.'')), h)
      | Some r \<Rightarrow>
          (let v' = (case v of
                       PyNone \<Rightarrow> v
                     | PyStr s \<Rightarrow> if force_lowercase then PyStr (str_lower s) else v)
           in (Inr (), set_instance_tag_cache f h r v')))"

text \<open>
  \<open>_is_sender\<close>: the result and the field with its updated caches. The loop over
  \<open>sender.__bases__\<close> returns in both branches of its body, so only the first base is
  ever looked at; the code after the loop runs when there is no base at all.
\<close>

fun is_sender :: "tagfield \<Rightarrow> pyclass \<Rightarrow> pyclass option \<Rightarrow> bool \<times> tagfield" where
  "is_sender f (PyClass a m bs) orig =
     (if PyClass a m bs = cls f \<or> PyClass a m bs \<in> set (senders f) then (True, f)
      else if PyClass a m bs \<in> set (not_senders f) then (False, f)
      else
        (let orig' = (case orig of None \<Rightarrow> PyClass a m bs | Some c \<Rightarrow> c) in
         (case bs of
            [] \<Rightarrow> (False, f\<lparr>not_senders := not_senders f @ [orig']\<rparr>)
          | base # rest \<Rightarrow>
              if base = cls f then (True, f\<lparr>senders := senders f @ [PyClass a m bs]\<rparr>)
              else is_sender f base (Some orig'))))"

text \<open>
  The ancestry test itself: a class descends from \<open>target\<close> when it is \<open>target\<close> or one
  of its bases, at any position, descends from it (Python's \<open>issubclass\<close>).
\<close>

fun issubclass :: "pyclass \<Rightarrow> pyclass \<Rightarrow> bool" where
  "issubclass (PyClass a m bs) target =
     (PyClass a m bs = target \<or> list_ex (\<lambda>b. issubclass b target) bs)"

text \<open>
  What the loop of \<open>_is_sender\<close> can reach: the class itself, or whatever the first
  base reaches.
\<close>

fun first_base_chain :: "pyclass \<Rightarrow> pyclass \<Rightarrow> bool" where
  "first_base_chain (PyClass a m bs) target =
     (PyClass a m bs = target \<or>
      (case bs of [] \<Rightarrow> False | base # rest \<Rightarrow> first_base_chain base target))"

text \<open>
  \<open>_get_ctype\<close>: the content type registered under the declaring class's application
  label and model name.
\<close>

definition get_ctype :: "tagfield \<Rightarrow> ctype" where
  "get_ctype f = (meta_app_label (cls f), meta_module_name (cls f))"

text \<open>
  Modelled from the spec: the parsing of a tag string (\<open>parse_tag_input\<close> of the
  module \<open>tagging.utils\<close>, which is outside the two source files). The spec calls the
  string a space-separated serialization of a set of tag names. Without a string
  (\<open>None\<close>) there is no name to parse.
\<close>

fun split_words :: "string \<Rightarrow> string \<Rightarrow> string list" where
  "split_words w [] = (if w = [] then [] else [w])"
| "split_words w (c # cs) =
     (if c = CHR '' '' then (if w = [] then split_words [] cs else w # split_words [] cs)
      else split_words (w @ [c]) cs)"

definition parse_tag_input :: "pyval \<Rightarrow> string list" where
  "parse_tag_input v = (case v of PyNone \<Rightarrow> [] | PyStr s \<Rightarrow> remdups (split_words [] s))"

text \<open>The associations of one object under one content type.\<close>

definition item_of :: "ctype \<Rightarrow> nat option \<Rightarrow> tagged_item \<Rightarrow> bool" where
  "item_of ct oid it = (ti_content_type it = ct \<and> ti_object_id it = oid)"

text \<open>
  Modelled from the spec: \<open>Tag.objects.update_tags\<close> (module \<open>tagging.models\<close>, outside
  the two source files). The spec says that the string is parsed and diffed against the
  persisted associations of the object, creating and removing associations as needed:
  associations of the object whose tag is no longer named are removed, the others are
  kept, and an association is created for each name that has none. A tag is stored under
  its name the first time it is used.
\<close>

definition update_tags :: "tag_store \<Rightarrow> model_instance \<Rightarrow> pyval \<Rightarrow> ctype \<Rightarrow> tag_store" where
  "update_tags db obj v ct =
     (let updated = parse_tag_input v;
          kept = filter (\<lambda>it. if item_of ct (pk obj) it then ti_tag it \<in> set updated else True)
                   (items db);
          current = map ti_tag (filter (item_of ct (pk obj)) kept);
          added = map (\<lambda>t. \<lparr>ti_tag = t, ti_content_type = ct, ti_object_id = pk obj\<rparr>)
                    (filter (\<lambda>t. t \<notin> set current) updated)
      in db\<lparr>tag_names := tag_names db @ filter (\<lambda>t. t \<notin> set (tag_names db)) updated,
             items := kept @ added\<rparr>)"

text \<open>The persisted association set of one object under one content type.\<close>

definition tags_of :: "tag_store \<Rightarrow> ctype \<Rightarrow> nat option \<Rightarrow> string set" where
  "tags_of db ct oid = set (map ti_tag (filter (item_of ct oid) (items db)))"

text \<open>
  \<open>_save\<close>, the post-save handler. It is connected without a sender, so it runs for the
  save of every model; \<open>sender\<close> and \<open>r\<close> are the signal's \<open>sender\<close> and \<open>instance\<close>.
\<close>

definition save ::
  "tagfield \<Rightarrow> tag_store \<Rightarrow> heap \<Rightarrow> pyclass \<Rightarrow> ref \<Rightarrow> tagfield \<times> tag_store" where
  "save f db h sender r =
     (let (b, f') = is_sender f sender None in
      if b then (f', update_tags db (h r) (get_instance_tag_cache f' h r) (get_ctype f'))
      else (f', db))"

definition update_instance_tag_cache ::
  "tagfield \<Rightarrow> tagging_api \<Rightarrow> tag_store \<Rightarrow> heap \<Rightarrow> ref \<Rightarrow> heap" where
  "update_instance_tag_cache f api db h r =
     (case pk (h r) of
        None \<Rightarrow> h
      | Some k \<Rightarrow>
          set_instance_tag_cache f h r
            (PyStr (edit_string_for_tags api (get_for_object api db (h r)))))"

text \<open>\<open>_update\<close>, the post-init handler.\<close>

definition update :: "tagfield \<Rightarrow> tagging_api \<Rightarrow> tag_store \<Rightarrow> heap \<Rightarrow> ref \<Rightarrow> heap" where
  "update f api db h r = update_instance_tag_cache f api db h r"

text \<open>\<open>__delete__\<close>, the pre-delete handler.\<close>

definition TagField_delete :: "tagfield \<Rightarrow> tag_store \<Rightarrow> heap \<Rightarrow> ref \<Rightarrow> tag_store" where
  "TagField_delete f db h r = update_tags db (h r) (PyStr []) (get_ctype f)"

text \<open>
  Instance construction as the field sees it. The framework's model constructor creates
  the object, assigns every field through \<open>setattr\<close> (the keyword argument when one is
  given, the field's default otherwise), which for this field is \<open>__set__\<close>, and then
  sends the post-init signal with the instance's class as sender.
  \<open>contribute_to_class\<close> connects \<open>_update\<close> to that signal for the sender \<open>cls\<close>
  only, so the handler runs for an instance of the declaring class and for no other.
\<close>

definition construct ::
  "(string \<Rightarrow> string) \<Rightarrow> bool \<Rightarrow> tagfield \<Rightarrow> tagging_api \<Rightarrow> tag_store \<Rightarrow> heap \<Rightarrow> ref
     \<Rightarrow> pyclass \<Rightarrow> nat option \<Rightarrow> pyval option \<Rightarrow> heap" where
  "construct str_lower force_lowercase f api db h r sender key kw =
     (let h0 = h(r := \<lparr>pk = key, attrs = Map.empty\<rparr>);
          h1 = snd (TagField_set str_lower force_lowercase f h0 (Some r)
                      (case kw of None \<Rightarrow> default f | Some v \<Rightarrow> v))
      in if sender = cls f then update f api db h1 r else h1)"

text \<open>The value \<open>__set__\<close> stores for a value it is given.\<close>

definition stored_value :: "(string \<Rightarrow> string) \<Rightarrow> bool \<Rightarrow> pyval \<Rightarrow> pyval" where
  "stored_value str_lower force_lowercase v =
     (case v of
        PyNone \<Rightarrow> PyNone
      | PyStr s \<Rightarrow> PyStr (if force_lowercase then str_lower s else s))"

section \<open>The views (views.py)\<close>

text \<open>
  The values a view handles: \<open>None\<close>, strings, dictionaries and references to objects
  the view only passes on (the request, a model or query set, a tag, a response).
\<close>

datatype pyobj = PNone | PStr string | PRef nat | PDict "(string \<times> pyobj) list"

type_synonym kwargs = "(string \<times> pyobj) list"

text \<open>
  The calls a view makes to the tag-storage interface and to the generic listing view, in
  the order it makes them.
\<close>

datatype event =
    CallGetTag pyobj
  | CallGetByModel pyobj pyobj
  | CallRelatedForModel pyobj pyobj bool
  | CallObjectList pyobj pyobj kwargs

text \<open>
  The functions \<open>tagged_object_list\<close> imports: \<open>get_tag\<close>,
  \<open>TaggedItem.objects.get_by_model\<close>, \<open>Tag.objects.related_for_model\<close>, the generic
  view \<open>object_list\<close>, and the conversion \<open>%s\<close> applies to the tag in the error
  message. They are parameters of the model.
\<close>

record views_env =
  get_tag :: "pyobj \<Rightarrow> pyobj"
  get_by_model :: "pyobj \<Rightarrow> pyobj \<Rightarrow> pyobj"
  related_for_model :: "pyobj \<Rightarrow> pyobj \<Rightarrow> bool \<Rightarrow> pyobj"
  object_list :: "pyobj \<Rightarrow> pyobj \<Rightarrow> kwargs \<Rightarrow> error + pyobj"
  str_of :: "pyobj \<Rightarrow> string"

text \<open>
  An argument that is \<open>None\<close> is popped from the keyword arguments; the \<open>KeyError\<close> of
  a missing key is turned into an \<open>AttributeError\<close>.
\<close>

definition pop_arg :: "string \<Rightarrow> string \<Rightarrow> pyobj \<Rightarrow> kwargs \<Rightarrow> error + (pyobj \<times> kwargs)" where
  "pop_arg key msg arg kw =
     (if arg = PNone then
        (case map_of kw key of
           None \<Rightarrow> Inl (AttributeError msg)
         | Some v \<Rightarrow> Inr (v, AList.delete key kw))
      else Inr (arg, kw))"

definition missing_model_message :: string where
  "missing_model_message = ''tagged_object_list must be called with a queryset or a model.''"

definition missing_tag_message :: string where
  "missing_tag_message = ''tagged_object_list must be called with a tag.''"

definition no_tag_message :: "views_env \<Rightarrow> pyobj \<Rightarrow> string" where
  "no_tag_message env tag =
     ''No Tag found matching '' @ [CHR 0x22] @ str_of env tag @ [CHR 0x22] @ ''.''"

text \<open>
  The part of \<open>tagged_object_list\<close> after the tag is resolved. Storing into an
  \<open>extra_context\<close> that is not a dictionary raises \<open>TypeError\<close>.
\<close>

definition list_tagged ::
  "views_env \<Rightarrow> pyobj \<Rightarrow> pyobj \<Rightarrow> pyobj \<Rightarrow> bool \<Rightarrow> bool \<Rightarrow> kwargs
     \<Rightarrow> (error + pyobj) \<times> event list" where
  "list_tagged env request queryset_or_model tag_instance related_tags related_tag_counts kw =
     (let queryset = get_by_model env queryset_or_model tag_instance;
          ev1 = [CallGetByModel queryset_or_model tag_instance];
          kw1 = (if map_of kw ''extra_context'' = None
                 then AList.update ''extra_context'' (PDict []) kw else kw)
      in case map_of kw1 ''extra_context'' of
           Some (PDict d) \<Rightarrow>
             (let d1 = AList.update ''tag'' tag_instance d;
                  d2 = (if related_tags
                        then AList.update ''related_tags''
                               (related_for_model env tag_instance queryset_or_model
                                  related_tag_counts) d1
                        else d1);
                  ev2 = (if related_tags
                         then [CallRelatedForModel tag_instance queryset_or_model
                                 related_tag_counts]
                         else []);
                  kw2 = AList.update ''extra_context'' (PDict d2) kw1
              in (object_list env request queryset kw2,
                  ev1 @ ev2 @ [CallObjectList request queryset kw2]))
         | _ \<Rightarrow> (Inl TypeError, ev1))"

definition tagged_object_list ::
  "views_env \<Rightarrow> pyobj \<Rightarrow> pyobj \<Rightarrow> pyobj \<Rightarrow> bool \<Rightarrow> bool \<Rightarrow> kwargs
     \<Rightarrow> (error + pyobj) \<times> event list" where
  "tagged_object_list env request queryset_or_model tag related_tags related_tag_counts kw =
     (case pop_arg ''queryset_or_model'' missing_model_message queryset_or_model kw of
        Inl e \<Rightarrow> (Inl e, [])
      | Inr (qom, kw1) \<Rightarrow>
          (case pop_arg ''tag'' missing_tag_message tag kw1 of
             Inl e \<Rightarrow> (Inl e, [])
           | Inr (tg, kw2) \<Rightarrow>
               (let tag_instance = get_tag env tg in
                if tag_instance = PNone
                then (Inl (Http404 (no_tag_message env tg)), [CallGetTag tg])
                else
                  (let (res, evs) = list_tagged env request qom tag_instance related_tags
                                      related_tag_counts kw2
                   in (res, CallGetTag tg # evs)))))"

subsection \<open>tags_for_object\<close>

text \<open>
  The two queries of \<open>tags_for_object\<close> are read as relational expressions over the
  tables. \<open>Tag.objects.filter(items__content_type=ctype)\<close> joins the tags with their
  items of that content type, and \<open>annotate(Count('items'))\<close> after the filter counts
  the joined rows of each tag; \<open>order_by('-items__count')\<close> sorts by falling count (the
  model keeps table order among equal counts). The sample is the rows of the model whose
  id is among the \<open>object_id\<close>s of the tag's items, ordered, cut after five.

  The table of a model (\<open>model.objects\<close>), the database's ordering for an
  \<open>order_by\<close> argument (random for \<open>'?'\<close>) and \<open>render_to_response\<close> are parameters.
\<close>

record tag_entry =
  te_tag :: string
  te_count :: nat
  te_items :: "nat list"

datatype ctxval = CtxTagInfo "tag_entry list" | CtxOther pyobj

record listing_env =
  model_objects :: "pyclass \<Rightarrow> nat list"
  order_rows :: "string \<Rightarrow> nat list \<Rightarrow> nat list"
  render_to_response :: "pyobj \<Rightarrow> (string \<times> ctxval) list \<Rightarrow> pyobj \<Rightarrow> pyobj"

definition get_for_model :: "pyclass \<Rightarrow> ctype" where
  "get_for_model m = (meta_app_label m, meta_module_name m)"

definition tagged_with :: "ctype \<Rightarrow> string \<Rightarrow> tagged_item \<Rightarrow> bool" where
  "tagged_with ct t it = (ti_content_type it = ct \<and> ti_tag it = t)"

definition items_count :: "tag_store \<Rightarrow> ctype \<Rightarrow> string \<Rightarrow> nat" where
  "items_count db ct t = length (filter (tagged_with ct t) (items db))"

definition annotated_tags :: "tag_store \<Rightarrow> ctype \<Rightarrow> (string \<times> nat) list" where
  "annotated_tags db ct =
     sort_key (\<lambda>(t, c). - int c)
       (map (\<lambda>t. (t, items_count db ct t))
          (filter (\<lambda>t. 0 < items_count db ct t) (tag_names db)))"

definition object_ids :: "tag_store \<Rightarrow> ctype \<Rightarrow> string \<Rightarrow> nat option list" where
  "object_ids db ct t = map ti_object_id (filter (tagged_with ct t) (items db))"

definition sample_items ::
  "listing_env \<Rightarrow> tag_store \<Rightarrow> pyclass \<Rightarrow> ctype \<Rightarrow> string \<Rightarrow> string \<Rightarrow> nat list" where
  "sample_items env db m ct order_by t =
     take 5 (order_rows env order_by
               (filter (\<lambda>i. Some i \<in> set (object_ids db ct t)) (model_objects env m)))"

definition tag_info :: "listing_env \<Rightarrow> tag_store \<Rightarrow> pyclass \<Rightarrow> string \<Rightarrow> tag_entry list" where
  "tag_info env db m order_by =
     (let ctype = get_for_model m in
      map (\<lambda>(t, c). \<lparr>te_tag = t, te_count = c,
                      te_items = sample_items env db m ctype order_by t\<rparr>)
        (annotated_tags db ctype))"

text \<open>
  \<open>model\<close> defaults to \<open>None\<close>, for which the content-type lookup fails on the missing
  \<open>_meta\<close> attribute. The context is \<open>dict({'tag_info': tag_info}, **extra_context)\<close>:
  the entries of \<open>extra_context\<close> are written over the initial dictionary.
\<close>

definition tags_for_object ::
  "listing_env \<Rightarrow> tag_store \<Rightarrow> pyobj \<Rightarrow> pyclass option \<Rightarrow> string \<Rightarrow> pyobj \<Rightarrow> kwargs
     \<Rightarrow> error + pyobj" where
  "tags_for_object env db request model order_by template_name extra_context =
     (case model of
        None \<Rightarrow> Inl (AttributeError ''_meta'')
      | Some m \<Rightarrow>
          Inr (render_to_response env template_name
                 (foldl (\<lambda>d (k, v). AList.update k (CtxOther v) d)
                    [(''tag_info'', CtxTagInfo (tag_info env db m order_by))] extra_context)
                 request))"

text \<open>
  What the tag store guarantees: tag names are unique, the associations form a set, and
  every association refers to a stored tag.
\<close>

definition wf_store :: "tag_store \<Rightarrow> bool" where
  "wf_store db = (distinct (tag_names db) \<and> distinct (items db) \<and>
                  list_all (\<lambda>it. ti_tag it \<in> set (tag_names db)) (items db))"

text \<open>Every association of the content type refers to a row of the model's table.\<close>

definition refs_exist :: "listing_env \<Rightarrow> tag_store \<Rightarrow> pyclass \<Rightarrow> bool" where
  "refs_exist env db m =
     list_all (\<lambda>it. if ti_content_type it = get_for_model m
                     then (case ti_object_id it of
                             None \<Rightarrow> False
                           | Some i \<Rightarrow> i \<in> set (model_objects env m))
                     else True) (items db)"

section \<open>Example data\<close>

text \<open>
  A class hierarchy with multiple inheritance: \<open>Base\<close> declares the tag field, and
  \<open>Child(Mixin, Base)\<close> inherits it through its second base.
\<close>

definition cls_object :: pyclass where
  "cls_object = PyClass [] ''object'' []"

definition cls_Model :: pyclass where
  "cls_Model = PyClass ''db'' ''model'' [cls_object]"

definition cls_Base :: pyclass where
  "cls_Base = PyClass ''app'' ''base'' [cls_Model]"

definition cls_Mixin :: pyclass where
  "cls_Mixin = PyClass ''app'' ''mixin'' [cls_object]"

definition cls_Child :: pyclass where
  "cls_Child = PyClass ''app'' ''child'' [cls_Mixin, cls_Base]"

definition tags_field :: tagfield where
  "tags_field =
     TagField_init \<lparr>kw_max_length = None, kw_blank = None, kw_default = None\<rparr>
       cls_Base ''tags''"


text \<open>What \<open>lower()\<close> does on a string of ASCII characters.\<close>

definition ascii_lower :: "string \<Rightarrow> string" where
  "ascii_lower s =
     map (\<lambda>c. case map_of (zip ''ABCDEFGHIJKLMNOPQRSTUVWXYZ'' ''abcdefghijklmnopqrstuvwxyz'') c of
                None \<Rightarrow> c
              | Some d \<Rightarrow> d) s"

definition empty_heap :: heap where
  "empty_heap = (\<lambda>r. \<lparr>pk = None, attrs = Map.empty\<rparr>)"

definition saved_heap :: heap where
  "saved_heap = (\<lambda>r. \<lparr>pk = Some 1, attrs = Map.empty\<rparr>)"

definition empty_store :: tag_store where
  "empty_store = \<lparr>tag_names = [], items = []\<rparr>"

definition base_item :: "string \<Rightarrow> nat \<Rightarrow> tagged_item" where
  "base_item t i = \<lparr>ti_tag = t, ti_content_type = (''app'', ''base''), ti_object_id = Some i\<rparr>"

definition example_store :: tag_store where
  "example_store =
     \<lparr>tag_names = [''a'', ''b'', ''c''],
      items = [base_item ''b'' 1, base_item ''a'' 1, base_item ''a'' 2]\<rparr>"

text \<open>
  A store with an association whose object (id 9) has no row in the model's table, which
  holds the row 1 only.
\<close>

definition dangling_store :: tag_store where
  "dangling_store =
     \<lparr>tag_names = [''a''], items = [base_item ''a'' 1, base_item ''a'' 9]\<rparr>"

definition single_row_env :: listing_env where
  "single_row_env =
     \<lparr>model_objects = (\<lambda>c. [1]),
      order_rows = (\<lambda>spec xs. xs),
      render_to_response = (\<lambda>t ctx r. PRef 11)\<rparr>"

definition example_api :: tagging_api where
  "example_api =
     \<lparr>get_for_object = (\<lambda>db obj. map ti_tag (filter (\<lambda>it. ti_object_id it = pk obj) (items db))),
      usage_for_model = (\<lambda>db c. tag_names db),
      edit_string_for_tags = (\<lambda>ts. concat (map (\<lambda>t. t @ '' '') ts))\<rparr>"

definition example_views_env :: views_env where
  "example_views_env =
     \<lparr>get_tag = (\<lambda>t. if t = PStr ''known'' then PRef 7 else PNone),
      get_by_model = (\<lambda>q t. PRef 8),
      related_for_model = (\<lambda>t q c. PRef 9),
      object_list = (\<lambda>r q kw. Inr (PRef 10)),
      str_of = (\<lambda>v. case v of PStr s \<Rightarrow> s | _ \<Rightarrow> ''?'')\<rparr>"

definition example_listing_env :: listing_env where
  "example_listing_env =
     \<lparr>model_objects = (\<lambda>c. [1, 2, 3]),
      order_rows = (\<lambda>spec xs. rev xs),
      render_to_response = (\<lambda>t ctx r. PRef 11)\<rparr>"

section \<open>Properties of the tag field\<close>

lemma get_set_cache:
  "get_instance_tag_cache f (set_instance_tag_cache f h r v) r = v"
  by (simp add: get_instance_tag_cache_def set_instance_tag_cache_def getattr_default_def
      setattr_def)

text \<open>
  C2. Setting the field on an instance to a string and reading it back on the same
  instance, with no save in between, succeeds and returns that string; when
  \<open>FORCE_LOWERCASE_TAGS\<close> is on, it returns what \<open>lower()\<close> makes of the string,
  whatever function \<open>lower()\<close> is.
\<close>

theorem set_then_get:
  "fst (TagField_set str_lower fl f h (Some r) (PyStr s)) = Inr () \<and>
   get_instance_tag_cache f (snd (TagField_set str_lower fl f h (Some r) (PyStr s))) r
     = PyStr (if fl then str_lower s else s) \<and>
   TagField_get f api db (snd (TagField_set str_lower fl f h (Some r) (PyStr s))) (Some r)
     owner
     = PyStr (if fl then str_lower s else s)"
  by (simp add: TagField_set_def TagField_get_def get_set_cache)

lemma ascii_lower_example: "ascii_lower ''Foo BAR'' = ''foo bar''"
  by (simp add: ascii_lower_def)

theorem set_then_get_witness:
  "TagField_get tags_field example_api example_store
     (snd (TagField_set ascii_lower True tags_field empty_heap (Some 0) (PyStr ''Foo BAR'')))
     (Some 0) cls_Base = PyStr ''foo bar'' \<and>
   TagField_get tags_field example_api example_store
     (snd (TagField_set ascii_lower False tags_field empty_heap (Some 0) (PyStr ''Foo BAR'')))
     (Some 0) cls_Base = PyStr ''Foo BAR''"
  using set_then_get [where str_lower = ascii_lower and fl = True and f = tags_field
      and h = empty_heap and r = 0 and s = "''Foo BAR''" and api = example_api
      and db = example_store and owner = cls_Base]
    set_then_get [where str_lower = ascii_lower and fl = False and f = tags_field
      and h = empty_heap and r = 0 and s = "''Foo BAR''" and api = example_api
      and db = example_store and owner = cls_Base]
  by (simp add: ascii_lower_example)

text \<open>
  C6. Writing the field with no instance (an assignment on the class) raises
  \<open>AttributeError\<close>, and the heap, hence every instance's tag cache, is as it was.
\<close>

theorem set_on_class_fails:
  "TagField_set str_lower fl f h None v
     = (Inl (AttributeError (name f @ '' can only be set on instances.'')), h)"
  by (simp add: TagField_set_def)

text \<open>
  C10. With \<open>FORCE_LOWERCASE_TAGS\<close> on, setting the field on an instance to \<open>None\<close>
  raises nothing, stores \<open>None\<close> in the instance's cache, and a read returns \<open>None\<close>.
\<close>

theorem set_none_lowercase:
  "fst (TagField_set str_lower True f h (Some r) PyNone) = Inr () \<and>
   get_instance_tag_cache f (snd (TagField_set str_lower True f h (Some r) PyNone)) r
     = PyNone \<and>
   TagField_get f api db (snd (TagField_set str_lower True f h (Some r) PyNone)) (Some r)
     owner = PyNone"
  by (simp add: TagField_set_def TagField_get_def get_set_cache)

subsection \<open>Sender detection\<close>

lemmas example_classes =
  cls_object_def cls_Model_def cls_Base_def cls_Mixin_def cls_Child_def

lemma is_sender_cls: "cls (snd (is_sender f c orig)) = cls f"
  by (induction f c orig rule: is_sender.induct) (simp add: Let_def split: list.splits)

lemma is_sender_attname: "attname (snd (is_sender f c orig)) = attname f"
  by (induction f c orig rule: is_sender.induct) (simp add: Let_def split: list.splits)

lemma issubclass_refl: "issubclass c c"
  by (cases c) simp

lemma issubclass_first_base: "issubclass b t \<Longrightarrow> issubclass (PyClass a m (b # rest)) t"
  by simp

lemma is_sender_sound:
  assumes "list_all (\<lambda>c. issubclass c (cls f)) (senders f)"
    and "fst (is_sender f c orig)"
  shows "issubclass c (cls f)"
  using assms
proof (induction f c orig rule: is_sender.induct)
  case (1 f a m bs orig)
  show ?case
  proof (cases "PyClass a m bs = cls f")
    case True
    then show ?thesis using issubclass_refl [of "cls f"] by simp
  next
    case notcls: False
    show ?thesis
    proof (cases "PyClass a m bs \<in> set (senders f)")
      case True
      then show ?thesis using "1.prems"(1)
        by (auto simp: list_all_iff simp del: issubclass.simps)
    next
      case notsender: False
      show ?thesis
      proof (cases "PyClass a m bs \<in> set (not_senders f)")
        case True
        then show ?thesis using "1.prems"(2) notcls notsender by simp
      next
        case notnot: False
        show ?thesis
        proof (cases bs)
          case Nil
          then show ?thesis using "1.prems"(2) notcls notsender notnot by simp
        next
          case (Cons base rest)
          show ?thesis
          proof (cases "base = cls f")
            case True
            then show ?thesis using Cons issubclass_refl [of "cls f"] by simp
          next
            case False
            then have "fst (is_sender f base (Some (case orig of None \<Rightarrow> PyClass a m bs | Some c \<Rightarrow> c)))"
              using "1.prems"(2) notcls notsender notnot Cons
              by (cases orig) (simp_all add: Let_def)
            then have "issubclass base (cls f)"
              using "1.IH" [OF _ _ refl Cons False] "1.prems"(1) notcls notsender notnot
              by simp
            then show ?thesis using Cons by simp
          qed
        qed
      qed
    qed
  qed
qed

lemma first_base_chain_refl: "first_base_chain c c"
  by (cases c) simp

lemma is_sender_first_base_chain:
  assumes "senders f = []" and "not_senders f = []"
  shows "fst (is_sender f c orig) = first_base_chain c (cls f)"
  using assms
  by (induction f c orig rule: is_sender.induct)
    (auto simp: Let_def first_base_chain_refl split: list.splits)

text \<open>
  C3. The claim is that \<open>_is_sender\<close> returns true exactly for the declaring class and
  its descendants, and that its caches agree with that test. It fails for a class that
  reaches the declaring class only through a base other than its first: for
  \<open>Child(Mixin, Base)\<close> and a field declared on \<open>Base\<close>, the class descends from
  \<open>Base\<close>, yet \<open>_is_sender\<close> answers false and enters \<open>Child\<close> in \<open>not_senders\<close>.
\<close>

theorem is_sender_misses_second_base:
  "issubclass cls_Child cls_Base \<and>
   fst (is_sender tags_field cls_Child None) = False \<and>
   not_senders (snd (is_sender tags_field cls_Child None)) = [cls_Child]"
  by (simp add: example_classes tags_field_def TagField_init_def)

subsection \<open>Saving and deleting\<close>

lemma tags_of_update_tags:
  "tags_of (update_tags db obj v ct) ct (pk obj) = set (parse_tag_input v)"
  by (auto simp: tags_of_def update_tags_def Let_def item_of_def)

lemma tags_of_update_tags_other:
  "oid \<noteq> pk obj \<or> ct' \<noteq> ct \<Longrightarrow> tags_of (update_tags db obj v ct) ct' oid = tags_of db ct' oid"
  by (auto simp: tags_of_def update_tags_def Let_def item_of_def)

lemma save_when_sender:
  assumes "fst (is_sender f sender None)"
  shows "snd (save f db h sender r)
           = update_tags db (h r) (get_instance_tag_cache f h r) (get_ctype f)"
    and "tags_of (snd (save f db h sender r)) (get_ctype f) (pk (h r))
           = set (parse_tag_input (get_instance_tag_cache f h r))"
proof -
  have c: "get_ctype (snd (is_sender f sender None)) = get_ctype f"
    by (simp add: get_ctype_def is_sender_cls)
  have g: "get_instance_tag_cache (snd (is_sender f sender None)) h r = get_instance_tag_cache f h r"
    by (simp add: get_instance_tag_cache_def cache_attr_def is_sender_attname)
  show "snd (save f db h sender r)
           = update_tags db (h r) (get_instance_tag_cache f h r) (get_ctype f)"
    using assms c g by (simp add: save_def case_prod_unfold)
  then show "tags_of (snd (save f db h sender r)) (get_ctype f) (pk (h r))
           = set (parse_tag_input (get_instance_tag_cache f h r))"
    by (simp add: tags_of_update_tags)
qed

lemma save_when_not_sender:
  "\<not> fst (is_sender f sender None) \<Longrightarrow> snd (save f db h sender r) = db"
  by (simp add: save_def case_prod_unfold)

text \<open>
  C1. The claim is that after the save of any instance of a model bearing the field, the
  persisted associations of the instance are the names parsed from its cached string. For
  a sender that \<open>_is_sender\<close> accepts this holds (\<open>save_when_sender\<close>). It fails for an
  instance of \<open>Child(Mixin, Base)\<close>: its cache holds \<open>a b\<close>, the store is empty, and the
  post-save handler leaves the store as it is, so none of the two names is persisted.
\<close>

theorem save_skips_second_base_child:
  "issubclass cls_Child cls_Base \<and>
   pk (snd (TagField_set ascii_lower False tags_field saved_heap (Some 0) (PyStr ''a b'')) 0) = Some 1 \<and>
   get_instance_tag_cache tags_field
     (snd (TagField_set ascii_lower False tags_field saved_heap (Some 0) (PyStr ''a b''))) 0 = PyStr ''a b'' \<and>
   set (parse_tag_input (PyStr ''a b'')) = {''a'', ''b''} \<and>
   snd (save tags_field empty_store
          (snd (TagField_set ascii_lower False tags_field saved_heap (Some 0) (PyStr ''a b''))) cls_Child 0)
     = empty_store \<and>
   tags_of (snd (save tags_field empty_store
          (snd (TagField_set ascii_lower False tags_field saved_heap (Some 0) (PyStr ''a b''))) cls_Child 0))
     (get_ctype tags_field) (Some 1) = {}"
  by (simp add: example_classes tags_field_def TagField_init_def TagField_set_def
      set_instance_tag_cache_def setattr_def saved_heap_def get_instance_tag_cache_def
      getattr_default_def cache_attr_def parse_tag_input_def save_def empty_store_def
      tags_of_def)

text \<open>The update keeps the store well formed.\<close>

lemma distinct_parse: "distinct (parse_tag_input v)"
  by (simp add: parse_tag_input_def split: pyval.splits)

lemma update_tags_wf:
  assumes "wf_store db"
  shows "wf_store (update_tags db obj v ct)"
proof -
  let ?u = "parse_tag_input v"
  let ?kept = "filter (\<lambda>it. if item_of ct (pk obj) it then ti_tag it \<in> set ?u else True) (items db)"
  let ?cur = "map ti_tag (filter (item_of ct (pk obj)) ?kept)"
  let ?mk = "\<lambda>t. \<lparr>ti_tag = t, ti_content_type = ct, ti_object_id = pk obj\<rparr>"
  let ?added = "map ?mk (filter (\<lambda>t. t \<notin> set ?cur) ?u)"
  have du: "distinct ?u" by (rule distinct_parse)
  have n: "distinct (tag_names db @ filter (\<lambda>t. t \<notin> set (tag_names db)) ?u)"
    using assms du by (auto simp: wf_store_def)
  have k: "distinct ?kept" using assms by (simp add: wf_store_def)
  have a: "distinct ?added"
    using du by (simp add: distinct_map inj_on_def)
  have disj: "set ?kept \<inter> set ?added = {}"
  proof (rule ccontr)
    assume "set ?kept \<inter> set ?added \<noteq> {}"
    then obtain it where i1: "it \<in> set ?kept" and i2: "it \<in> set ?added" by blast
    from i2 obtain t where t: "it = ?mk t" "t \<notin> set ?cur" by auto
    from t(1) have "item_of ct (pk obj) it" "ti_tag it = t" by (simp_all add: item_of_def)
    with i1 have "t \<in> set ?cur" by force
    with t(2) show False by simp
  qed
  have i: "distinct (?kept @ ?added)" using k a disj by simp
  have f: "list_all (\<lambda>it. ti_tag it \<in> set (tag_names db @ filter (\<lambda>t. t \<notin> set (tag_names db)) ?u))
             (?kept @ ?added)"
    using assms by (auto simp: wf_store_def list_all_iff)
  show ?thesis
    using n i f by (simp add: wf_store_def update_tags_def Let_def)
qed

text \<open>
  C7. The pre-delete handler updates the instance's tags to the empty string under the
  content type of the declaring class (its application label and model name). After it,
  the store holds no association of the instance under that content type, and every
  other association is still there.
\<close>

theorem delete_removes_all:
  "TagField_delete f db h r
     = update_tags db (h r) (PyStr []) (meta_app_label (cls f), meta_module_name (cls f)) \<and>
   filter (item_of (meta_app_label (cls f), meta_module_name (cls f)) (pk (h r)))
     (items (TagField_delete f db h r)) = [] \<and>
   tags_of (TagField_delete f db h r) (meta_app_label (cls f), meta_module_name (cls f))
     (pk (h r)) = {} \<and>
   filter (\<lambda>it. \<not> item_of (meta_app_label (cls f), meta_module_name (cls f)) (pk (h r)) it)
     (items (TagField_delete f db h r))
     = filter (\<lambda>it. \<not> item_of (meta_app_label (cls f), meta_module_name (cls f)) (pk (h r)) it)
         (items db)"
proof -
  let ?ct = "(meta_app_label (cls f), meta_module_name (cls f))"
  have d: "TagField_delete f db h r = update_tags db (h r) (PyStr []) ?ct"
    by (simp add: TagField_delete_def get_ctype_def)
  have i: "items (update_tags db (h r) (PyStr []) ?ct)
             = filter (\<lambda>it. \<not> item_of ?ct (pk (h r)) it) (items db)"
    by (simp add: update_tags_def Let_def parse_tag_input_def if_bool_eq_conj)
  have e: "filter (item_of ?ct (pk (h r))) (items (TagField_delete f db h r)) = []"
    unfolding d i by (simp add: filter_empty_conv)
  have t: "tags_of (TagField_delete f db h r) ?ct (pk (h r)) = {}"
    using e by (simp add: tags_of_def)
  have k: "filter (\<lambda>it. \<not> item_of ?ct (pk (h r)) it) (items (TagField_delete f db h r))
             = filter (\<lambda>it. \<not> item_of ?ct (pk (h r)) it) (items db)"
    unfolding d i by simp
  show ?thesis using d e t k by blast
qed

theorem delete_removes_all_witness:
  "items (TagField_delete tags_field example_store saved_heap 0) = [base_item ''a'' 2] \<and>
   tags_of (TagField_delete tags_field example_store saved_heap 0) (''app'', ''base'') (Some 1)
     = {}"
proof -
  have c: "cls tags_field = PyClass ''app'' ''base'' [cls_Model]"
    by (simp add: tags_field_def TagField_init_def cls_Base_def)
  have p: "pk (saved_heap 0) = Some 1" by (simp add: saved_heap_def)
  note t = delete_removes_all [where f = tags_field and db = example_store
      and h = saved_heap and r = 0]
  from t have "TagField_delete tags_field example_store saved_heap 0
      = update_tags example_store (saved_heap 0) (PyStr [])
          (meta_app_label (cls tags_field), meta_module_name (cls tags_field))"
    by blast
  then have "items (TagField_delete tags_field example_store saved_heap 0)
      = items (update_tags example_store (saved_heap 0) (PyStr []) (''app'', ''base''))"
    by (simp add: c)
  then have a: "items (TagField_delete tags_field example_store saved_heap 0)
      = [base_item ''a'' 2]"
    by (simp add: update_tags_def Let_def parse_tag_input_def example_store_def base_item_def
        item_of_def saved_heap_def)
  from t have "tags_of (TagField_delete tags_field example_store saved_heap 0)
      (meta_app_label (cls tags_field), meta_module_name (cls tags_field))
      (pk (saved_heap 0)) = {}"
    by blast
  then have b: "tags_of (TagField_delete tags_field example_store saved_heap 0)
      (''app'', ''base'') (Some 1) = {}"
    by (simp add: c p)
  show ?thesis using a b by blast
qed

subsection \<open>Construction\<close>



text \<open>
  The handler is connected for the declaring class only: the cache of an instance of any
  other class, a subclass included, is what the constructor assigned.
\<close>

lemma construct_other_sender:
  "sender \<noteq> cls f \<Longrightarrow>
   TagField_get f api db (construct str_lower fl f api db h r sender key v) (Some r) owner
     = stored_value str_lower fl (case v of None \<Rightarrow> default f | Some x \<Rightarrow> x)"
  by (simp add: construct_def Let_def TagField_get_def TagField_set_def get_set_cache
      stored_value_def split: pyval.splits)




section \<open>Properties of the views\<close>

lemma map_of_delete_other: "k \<noteq> k' \<Longrightarrow> map_of (AList.delete k al) k' = map_of al k'"
  by (simp add: delete_conv')

text \<open>
  C8. When the query set or model is missing (not passed, and not among the keyword
  arguments), or the tag is, \<open>tagged_object_list\<close> raises \<open>AttributeError\<close> and has
  made no call at all: no tag was resolved and nothing was listed.
\<close>

theorem missing_argument:
  assumes "(queryset_or_model = PNone \<and> map_of kw ''queryset_or_model'' = None) \<or>
           (tag = PNone \<and> map_of kw ''tag'' = None)"
  shows "tagged_object_list env request queryset_or_model tag related_tags
           related_tag_counts kw
         = (Inl (AttributeError
                   (if queryset_or_model = PNone \<and> map_of kw ''queryset_or_model'' = None
                    then missing_model_message else missing_tag_message)), [])"
  using assms
  by (auto simp: tagged_object_list_def pop_arg_def map_of_delete_other split: option.splits)

theorem missing_argument_witness:
  "tagged_object_list example_views_env (PRef 0) PNone (PStr ''known'') False True []
     = (Inl (AttributeError missing_model_message), []) \<and>
   tagged_object_list example_views_env (PRef 0) (PRef 1) PNone False True
       [(''paginate_by'', PRef 2)]
     = (Inl (AttributeError missing_tag_message), [])"
  using missing_argument [where queryset_or_model = PNone and kw = "[]"
      and env = example_views_env and request = "PRef 0" and tag = "PStr ''known''"
      and related_tags = False and related_tag_counts = True]
    missing_argument [where queryset_or_model = "PRef 1" and kw = "[(''paginate_by'', PRef 2)]"
      and env = example_views_env and request = "PRef 0" and tag = PNone
      and related_tags = False and related_tag_counts = True]
  by simp

text \<open>
  C5. With both arguments present: when the tag does not resolve (\<open>get_tag\<close> returns
  \<open>None\<close>), \<open>tagged_object_list\<close> raises \<open>Http404\<close> and its only call was the tag
  lookup, so nothing was listed; when the tag resolves, the view goes on to the listing
  query, and its result is that of the generic listing view (or a \<open>TypeError\<close> for an
  \<open>extra_context\<close> that is no dictionary), not a failure of the tag lookup.
\<close>

theorem unknown_tag:
  assumes "pop_arg ''queryset_or_model'' missing_model_message queryset_or_model kw
             = Inr (qom, kw1)"
    and "pop_arg ''tag'' missing_tag_message tag kw1 = Inr (tg, kw2)"
  shows "(get_tag env tg = PNone \<longrightarrow>
            tagged_object_list env request queryset_or_model tag related_tags
              related_tag_counts kw
            = (Inl (Http404 (no_tag_message env tg)), [CallGetTag tg])) \<and>
         (get_tag env tg \<noteq> PNone \<longrightarrow>
            take 2 (snd (tagged_object_list env request queryset_or_model tag related_tags
                           related_tag_counts kw))
              = [CallGetTag tg, CallGetByModel qom (get_tag env tg)] \<and>
            (fst (tagged_object_list env request queryset_or_model tag related_tags
                    related_tag_counts kw) = Inl TypeError \<or>
             (\<exists>qs kws. fst (tagged_object_list env request queryset_or_model tag related_tags
                              related_tag_counts kw) = object_list env request qs kws)))"
  using assms
  by (auto simp: tagged_object_list_def list_tagged_def Let_def
      split: option.splits pyobj.splits)

theorem unknown_tag_witness:
  "tagged_object_list example_views_env (PRef 0) (PRef 1) (PStr ''nope'') True True []
     = (Inl (Http404 (''No Tag found matching '' @ [CHR 0x22] @ ''nope'' @ [CHR 0x22] @ ''.'')),
        [CallGetTag (PStr ''nope'')]) \<and>
   take 2 (snd (tagged_object_list example_views_env (PRef 0) (PRef 1) (PStr ''known'') True
                  True []))
     = [CallGetTag (PStr ''known''), CallGetByModel (PRef 1) (PRef 7)]"
proof -
  have a1: "pop_arg ''queryset_or_model'' missing_model_message (PRef 1) [] = Inr (PRef 1, [])"
    by (simp add: pop_arg_def)
  have a2: "pop_arg ''tag'' missing_tag_message (PStr ''nope'') [] = Inr (PStr ''nope'', [])"
    by (simp add: pop_arg_def)
  have a3: "pop_arg ''tag'' missing_tag_message (PStr ''known'') [] = Inr (PStr ''known'', [])"
    by (simp add: pop_arg_def)
  have g1: "get_tag example_views_env (PStr ''nope'') = PNone"
    by (simp add: example_views_env_def)
  have g2: "get_tag example_views_env (PStr ''known'') = PRef 7"
    by (simp add: example_views_env_def)
  have s: "str_of example_views_env (PStr ''nope'') = ''nope''"
    by (simp add: example_views_env_def)
  show ?thesis
    using unknown_tag [OF a1 a2, where env = example_views_env and request = "PRef 0"
        and related_tags = True and related_tag_counts = True]
      unknown_tag [OF a1 a3, where env = example_views_env and request = "PRef 0"
        and related_tags = True and related_tag_counts = True]
      g1 g2 s
    by (simp add: no_tag_message_def)
qed

subsection \<open>tags_for_object\<close>

lemma count_card:
  assumes "distinct (items db)"
  shows "items_count db ct t
           = card {oid. \<exists>it \<in> set (items db). tagged_with ct t it \<and> ti_object_id it = oid}"
proof -
  let ?S = "set (filter (tagged_with ct t) (items db))"
  have "items_count db ct t = card ?S"
    using assms distinct_card [of "filter (tagged_with ct t) (items db)"]
    by (simp add: items_count_def)
  moreover have "inj_on ti_object_id ?S"
    by (auto simp: inj_on_def tagged_with_def)
  then have "card (ti_object_id ` ?S) = card ?S" by (rule card_image)
  moreover have "ti_object_id ` ?S
      = {oid. \<exists>it \<in> set (items db). tagged_with ct t it \<and> ti_object_id it = oid}"
    by auto
  ultimately show ?thesis by simp
qed

lemma existing_ids:
  assumes "refs_exist env db m"
  shows "{oid. \<exists>it \<in> set (items db). tagged_with (get_for_model m) t it \<and> ti_object_id it = oid}
         = Some ` {i \<in> set (model_objects env m).
                     \<exists>it \<in> set (items db). tagged_with (get_for_model m) t it \<and>
                        ti_object_id it = Some i}"
    (is "?L = Some ` ?R")
proof
  show "?L \<subseteq> Some ` ?R"
  proof
    fix oid assume "oid \<in> ?L"
    then obtain it where it: "it \<in> set (items db)" "tagged_with (get_for_model m) t it"
        "ti_object_id it = oid"
      by blast
    from assms it(1) it(2) have "case ti_object_id it of None \<Rightarrow> False
        | Some i \<Rightarrow> i \<in> set (model_objects env m)"
      by (auto simp: refs_exist_def list_all_iff tagged_with_def split: if_splits)
    then obtain i where i: "ti_object_id it = Some i" "i \<in> set (model_objects env m)"
      by (cases "ti_object_id it") auto
    then have "i \<in> ?R" using it by auto
    then show "oid \<in> Some ` ?R" using i(1) it(3) by auto
  qed
  show "Some ` ?R \<subseteq> ?L" by auto
qed

lemma count_card_existing:
  assumes "distinct (items db)" and "refs_exist env db m"
  shows "items_count db (get_for_model m) t
           = card {i \<in> set (model_objects env m).
                     \<exists>it \<in> set (items db). tagged_with (get_for_model m) t it \<and>
                        ti_object_id it = Some i}"
  using count_card [OF assms(1), of "get_for_model m" t] existing_ids [OF assms(2), of t]
    card_image [of Some "{i \<in> set (model_objects env m).
                     \<exists>it \<in> set (items db). tagged_with (get_for_model m) t it \<and>
                        ti_object_id it = Some i}"]
  by simp

lemma set_annotated:
  "set (annotated_tags db ct)
     = (\<lambda>t. (t, items_count db ct t)) ` {t \<in> set (tag_names db). 0 < items_count db ct t}"
  by (auto simp: annotated_tags_def)

lemma count_pos:
  "0 < items_count db ct t \<longleftrightarrow> (\<exists>it \<in> set (items db). tagged_with ct t it)"
  by (auto simp: items_count_def filter_empty_conv)

lemma distinct_annotated:
  assumes "distinct (tag_names db)"
  shows "distinct (map fst (annotated_tags db ct))"
proof -
  have "distinct (annotated_tags db ct)"
    using assms by (simp add: annotated_tags_def distinct_map inj_on_def)
  moreover have "inj_on fst (set (annotated_tags db ct))"
    by (auto simp: set_annotated inj_on_def)
  ultimately show ?thesis by (simp add: distinct_map)
qed

lemma tag_info_tags:
  "map te_tag (tag_info env db m ob) = map fst (annotated_tags db (get_for_model m))"
  by (simp add: tag_info_def Let_def comp_def case_prod_unfold)

lemma tag_info_entry:
  assumes "e \<in> set (tag_info env db m ob)"
  shows "te_count e = items_count db (get_for_model m) (te_tag e) \<and>
         te_items e = sample_items env db m (get_for_model m) ob (te_tag e)"
  using assms by (auto simp: tag_info_def Let_def set_annotated)

lemma tag_info_stored_tags:
  "set (map te_tag (tag_info env db m ob))
     = {t \<in> set (tag_names db). \<exists>it \<in> set (items db). tagged_with (get_for_model m) t it}"
proof -
  have "set (map fst (annotated_tags db (get_for_model m)))
          = {t \<in> set (tag_names db). 0 < items_count db (get_for_model m) t}"
    by (auto simp: set_annotated image_iff)
  then show ?thesis
    unfolding tag_info_tags count_pos by blast
qed

lemma tag_info_tag_set:
  assumes "wf_store db"
  shows "set (map te_tag (tag_info env db m ob))
           = {t. \<exists>it \<in> set (items db). tagged_with (get_for_model m) t it}"
proof -
  have "set (map fst (annotated_tags db (get_for_model m)))
          = {t \<in> set (tag_names db). 0 < items_count db (get_for_model m) t}"
    by (auto simp: set_annotated image_iff)
  moreover have "\<And>t it. it \<in> set (items db) \<Longrightarrow> tagged_with (get_for_model m) t it
                    \<Longrightarrow> t \<in> set (tag_names db)"
    using assms by (auto simp: wf_store_def list_all_iff tagged_with_def)
  ultimately show ?thesis
    unfolding tag_info_tags count_pos by blast
qed

lemma sample_items_subset:
  assumes "set (order_rows env ob
             (filter (\<lambda>i. Some i \<in> set (object_ids db ct t)) (model_objects env m)))
           = set (filter (\<lambda>i. Some i \<in> set (object_ids db ct t)) (model_objects env m))"
  shows "set (sample_items env db m ct ob t)
           \<subseteq> {i \<in> set (model_objects env m).
                 \<exists>it \<in> set (items db). tagged_with ct t it \<and> ti_object_id it = Some i}"
proof -
  let ?xs = "filter (\<lambda>i. Some i \<in> set (object_ids db ct t)) (model_objects env m)"
  have "set (sample_items env db m ct ob t) \<subseteq> set ?xs"
    using assms set_take_subset [of 5 "order_rows env ob ?xs"] by (simp add: sample_items_def)
  moreover have "set ?xs \<subseteq> {i \<in> set (model_objects env m).
                 \<exists>it \<in> set (items db). tagged_with ct t it \<and> ti_object_id it = Some i}"
    by (auto simp: object_ids_def)
  ultimately show ?thesis by blast
qed

text \<open>
  C9, as stated, makes the count of an entry the number of distinct tagged instances of
  the model holding the tag. In a well-formed store where the tag \<open>a\<close> is associated with
  the objects 1 and 9 of the model, whose table holds the row 1 only, the count is 2 and
  a single instance holds the tag.
\<close>

theorem count_with_dangling_association:
  "wf_store dangling_store \<and>
   map te_tag (tag_info single_row_env dangling_store cls_Base ''?'') = [''a''] \<and>
   map te_count (tag_info single_row_env dangling_store cls_Base ''?'') = [2] \<and>
   filter (\<lambda>i. Some i \<in> set (object_ids dangling_store (get_for_model cls_Base) ''a''))
     (model_objects single_row_env cls_Base) = [1]"
  by (simp add: wf_store_def dangling_store_def base_item_def tag_info_def
      annotated_tags_def items_count_def tagged_with_def sample_items_def object_ids_def
      single_row_env_def get_for_model_def cls_Base_def)

text \<open>
  C9, amended. \<open>tags_for_object\<close> builds an entry for each stored tag that has an
  association with the model's content type and for no other tag, one entry a tag when
  tag names are unique. The entry's count is the number of associations of the tag under
  that content type. That is the number of distinct tagged objects when the associations
  are unique, and the number of rows of the model holding the tag when moreover every
  association refers to a row. Its items are the first five, at most, of what the
  ordering for the \<open>order_by\<close> argument makes of the model's rows holding the tag, and
  they are such rows when the ordering returns the rows it is given.
\<close>

theorem tag_info_entries:
  "set (map te_tag (tag_info env db m order_by))
     = {t \<in> set (tag_names db). \<exists>it \<in> set (items db). tagged_with (get_for_model m) t it} \<and>
   (wf_store db \<longrightarrow>
      set (map te_tag (tag_info env db m order_by))
        = {t. \<exists>it \<in> set (items db). tagged_with (get_for_model m) t it}) \<and>
   (distinct (tag_names db) \<longrightarrow> distinct (map te_tag (tag_info env db m order_by))) \<and>
   (\<forall>e \<in> set (tag_info env db m order_by).
      te_count e = length (filter (tagged_with (get_for_model m) (te_tag e)) (items db)) \<and>
      (distinct (items db) \<longrightarrow>
         te_count e
           = card {oid. \<exists>it \<in> set (items db).
                     tagged_with (get_for_model m) (te_tag e) it \<and> ti_object_id it = oid}) \<and>
      (distinct (items db) \<and> refs_exist env db m \<longrightarrow>
         te_count e
           = card {i \<in> set (model_objects env m).
                     \<exists>it \<in> set (items db). tagged_with (get_for_model m) (te_tag e) it \<and>
                        ti_object_id it = Some i}) \<and>
      te_items e
        = take 5 (order_rows env order_by
            (filter (\<lambda>i. Some i \<in> set (object_ids db (get_for_model m) (te_tag e)))
               (model_objects env m))) \<and>
      length (te_items e) \<le> 5 \<and>
      ((\<forall>xs. set (order_rows env order_by xs) = set xs) \<longrightarrow>
         set (te_items e)
           \<subseteq> {i \<in> set (model_objects env m).
                 \<exists>it \<in> set (items db). tagged_with (get_for_model m) (te_tag e) it \<and>
                    ti_object_id it = Some i})) \<and>
   tags_for_object env db request (Some m) order_by template_name []
     = Inr (render_to_response env template_name
              [(''tag_info'', CtxTagInfo (tag_info env db m order_by))] request)"
proof -
  have a: "set (map te_tag (tag_info env db m order_by))
     = {t \<in> set (tag_names db). \<exists>it \<in> set (items db). tagged_with (get_for_model m) t it}"
    by (rule tag_info_stored_tags)
  have a': "wf_store db \<longrightarrow>
      set (map te_tag (tag_info env db m order_by))
        = {t. \<exists>it \<in> set (items db). tagged_with (get_for_model m) t it}"
    using tag_info_tag_set [of db env m order_by] by blast
  have b: "distinct (tag_names db) \<longrightarrow> distinct (map te_tag (tag_info env db m order_by))"
    unfolding tag_info_tags using distinct_annotated [of db "get_for_model m"] by blast
  have c: "\<forall>e \<in> set (tag_info env db m order_by).
      te_count e = length (filter (tagged_with (get_for_model m) (te_tag e)) (items db)) \<and>
      (distinct (items db) \<longrightarrow>
         te_count e
           = card {oid. \<exists>it \<in> set (items db).
                     tagged_with (get_for_model m) (te_tag e) it \<and> ti_object_id it = oid}) \<and>
      (distinct (items db) \<and> refs_exist env db m \<longrightarrow>
         te_count e
           = card {i \<in> set (model_objects env m).
                     \<exists>it \<in> set (items db). tagged_with (get_for_model m) (te_tag e) it \<and>
                        ti_object_id it = Some i}) \<and>
      te_items e
        = take 5 (order_rows env order_by
            (filter (\<lambda>i. Some i \<in> set (object_ids db (get_for_model m) (te_tag e)))
               (model_objects env m))) \<and>
      length (te_items e) \<le> 5 \<and>
      ((\<forall>xs. set (order_rows env order_by xs) = set xs) \<longrightarrow>
         set (te_items e)
           \<subseteq> {i \<in> set (model_objects env m).
                 \<exists>it \<in> set (items db). tagged_with (get_for_model m) (te_tag e) it \<and>
                    ti_object_id it = Some i})"
  proof
    fix e assume e: "e \<in> set (tag_info env db m order_by)"
    note en = tag_info_entry [OF e]
    have c0: "te_count e
        = length (filter (tagged_with (get_for_model m) (te_tag e)) (items db))"
      using en by (simp add: items_count_def)
    have c1: "distinct (items db) \<longrightarrow>
         te_count e
           = card {oid. \<exists>it \<in> set (items db).
                     tagged_with (get_for_model m) (te_tag e) it \<and> ti_object_id it = oid}"
      using en count_card [of db "get_for_model m" "te_tag e"] by simp
    have c2: "distinct (items db) \<and> refs_exist env db m \<longrightarrow>
         te_count e
           = card {i \<in> set (model_objects env m).
                     \<exists>it \<in> set (items db). tagged_with (get_for_model m) (te_tag e) it \<and>
                        ti_object_id it = Some i}"
      using en count_card_existing [of db env m "te_tag e"] by simp
    have c3: "te_items e
        = take 5 (order_rows env order_by
            (filter (\<lambda>i. Some i \<in> set (object_ids db (get_for_model m) (te_tag e)))
               (model_objects env m)))"
      using en by (simp add: sample_items_def)
    have c4: "length (te_items e) \<le> 5" using c3 by simp
    have c5: "(\<forall>xs. set (order_rows env order_by xs) = set xs) \<longrightarrow>
         set (te_items e)
           \<subseteq> {i \<in> set (model_objects env m).
                 \<exists>it \<in> set (items db). tagged_with (get_for_model m) (te_tag e) it \<and>
                    ti_object_id it = Some i}"
      using en sample_items_subset [of env order_by db "get_for_model m" "te_tag e" m]
      by simp
    show "te_count e = length (filter (tagged_with (get_for_model m) (te_tag e)) (items db)) \<and>
      (distinct (items db) \<longrightarrow>
         te_count e
           = card {oid. \<exists>it \<in> set (items db).
                     tagged_with (get_for_model m) (te_tag e) it \<and> ti_object_id it = oid}) \<and>
      (distinct (items db) \<and> refs_exist env db m \<longrightarrow>
         te_count e
           = card {i \<in> set (model_objects env m).
                     \<exists>it \<in> set (items db). tagged_with (get_for_model m) (te_tag e) it \<and>
                        ti_object_id it = Some i}) \<and>
      te_items e
        = take 5 (order_rows env order_by
            (filter (\<lambda>i. Some i \<in> set (object_ids db (get_for_model m) (te_tag e)))
               (model_objects env m))) \<and>
      length (te_items e) \<le> 5 \<and>
      ((\<forall>xs. set (order_rows env order_by xs) = set xs) \<longrightarrow>
         set (te_items e)
           \<subseteq> {i \<in> set (model_objects env m).
                 \<exists>it \<in> set (items db). tagged_with (get_for_model m) (te_tag e) it \<and>
                    ti_object_id it = Some i})"
      using c0 c1 c2 c3 c4 c5 by blast
  qed
  have t: "tags_for_object env db request (Some m) order_by template_name []
           = Inr (render_to_response env template_name
                    [(''tag_info'', CtxTagInfo (tag_info env db m order_by))] request)"
    by (simp add: tags_for_object_def)
  show ?thesis using a a' b c t by blast
qed

theorem tag_info_entries_witness:
  "wf_store example_store \<and>
   (\<forall>xs. set (order_rows example_listing_env ''?'' xs) = set xs) \<and>
   refs_exist example_listing_env example_store cls_Base \<and>
   tag_info example_listing_env example_store cls_Base ''?''
     = [\<lparr>te_tag = ''a'', te_count = 2, te_items = [2, 1]\<rparr>,
        \<lparr>te_tag = ''b'', te_count = 1, te_items = [1]\<rparr>] \<and>
   length (filter (tagged_with (get_for_model cls_Base) ''a'') (items example_store)) = 2 \<and>
   card {oid. \<exists>it \<in> set (items example_store).
           tagged_with (get_for_model cls_Base) ''a'' it \<and> ti_object_id it = oid} = 2 \<and>
   card {i \<in> set (model_objects example_listing_env cls_Base).
           \<exists>it \<in> set (items example_store). tagged_with (get_for_model cls_Base) ''a'' it \<and>
              ti_object_id it = Some i} = 2"
proof -
  have wf: "wf_store example_store"
    by (simp add: wf_store_def example_store_def base_item_def)
  then have di: "distinct (items example_store)" by (simp add: wf_store_def)
  have ord: "\<forall>xs. set (order_rows example_listing_env ''?'' xs) = set xs"
    by (simp add: example_listing_env_def)
  have re: "refs_exist example_listing_env example_store cls_Base"
    by (simp add: refs_exist_def example_store_def base_item_def example_listing_env_def
        get_for_model_def cls_Base_def)
  have ti: "tag_info example_listing_env example_store cls_Base ''?''
     = [\<lparr>te_tag = ''a'', te_count = 2, te_items = [2, 1]\<rparr>,
        \<lparr>te_tag = ''b'', te_count = 1, te_items = [1]\<rparr>]"
    by (simp add: tag_info_def annotated_tags_def items_count_def tagged_with_def
        sample_items_def object_ids_def example_store_def base_item_def
        example_listing_env_def get_for_model_def cls_Base_def)
  note t = tag_info_entries [where env = example_listing_env and db = example_store
      and m = cls_Base and order_by = "''?''"]
  from t di re have "\<forall>e \<in> set (tag_info example_listing_env example_store cls_Base ''?'').
      te_count e = length (filter (tagged_with (get_for_model cls_Base) (te_tag e))
                             (items example_store)) \<and>
      te_count e = card {oid. \<exists>it \<in> set (items example_store).
           tagged_with (get_for_model cls_Base) (te_tag e) it \<and> ti_object_id it = oid} \<and>
      te_count e = card {i \<in> set (model_objects example_listing_env cls_Base).
           \<exists>it \<in> set (items example_store).
              tagged_with (get_for_model cls_Base) (te_tag e) it \<and> ti_object_id it = Some i}"
    by blast
  then have "length (filter (tagged_with (get_for_model cls_Base) ''a'') (items example_store))
       = 2 \<and>
     card {oid. \<exists>it \<in> set (items example_store).
           tagged_with (get_for_model cls_Base) ''a'' it \<and> ti_object_id it = oid} = 2 \<and>
     card {i \<in> set (model_objects example_listing_env cls_Base).
           \<exists>it \<in> set (items example_store). tagged_with (get_for_model cls_Base) ''a'' it \<and>
              ti_object_id it = Some i} = 2"
    unfolding ti by simp
  then show ?thesis using wf ord re ti by blast
qed

end
